theory Spec2Isabelle
  imports Main "HOL-Library.Word"
begin

section \<open>JavaScript values\<close>

text \<open>
  Strings are byte lists holding UTF-8 text. A value that comes out of \<^verbatim>\<open>JSON.parse\<close>
  or goes into \<^verbatim>\<open>JSON.stringify\<close> is a \<open>json\<close> tree; \<open>undefined\<close> (an absent
  property) is \<open>None\<close> of \<open>json option\<close>. An integral number is \<open>JNum n\<close>; a number
  with a fractional part is \<open>JFrac m k\<close>, standing for \<open>m / 10 ^ k\<close> with \<open>k > 0\<close> and
  \<open>m\<close> not divisible by ten. Numbers are exact: the rounding of \<^verbatim>\<open>Number\<close> to a
  double is not part of the model.
\<close>

datatype json =
    JNull
  | JBool bool
  | JNum int
  | JFrac int nat
  | JStr string
  | JArr "json list"
  | JObj "(string \<times> json) list"

type_synonym jsval = "json option"

text \<open>The operand test of \<^verbatim>\<open>||\<close>: undefined, null, false, 0 and the empty string are falsy.\<close>

fun js_truthy :: "jsval \<Rightarrow> bool" where
  "js_truthy None = False"
| "js_truthy (Some JNull) = False"
| "js_truthy (Some (JBool b)) = b"
| "js_truthy (Some (JNum n)) = (n \<noteq> 0)"
| "js_truthy (Some (JStr s)) = (s \<noteq> [])"
| "js_truthy (Some _) = True"

definition digit_char :: "nat \<Rightarrow> char" where
  "digit_char d = char_of (48 + d)"

function nat_to_string :: "nat \<Rightarrow> string" where
  "nat_to_string n =
     (if n < 10 then [digit_char n] else nat_to_string (n div 10) @ [digit_char (n mod 10)])"
  by pat_completeness auto
termination
  by (relation "measure id") auto

declare nat_to_string.simps [simp del]

definition int_to_string :: "int \<Rightarrow> string" where
  "int_to_string i = (if i < 0 then CHR ''-'' # nat_to_string (nat (- i)) else nat_to_string (nat i))"

text \<open>
  \<open>frac_to_string m k\<close> writes \<open>m / 10 ^ k\<close> as a decimal: sign, integer part, point and
  exactly \<open>k\<close> fractional digits.
\<close>

definition frac_to_string :: "int \<Rightarrow> nat \<Rightarrow> string" where
  "frac_to_string m k =
     (let a = nat \<bar>m\<bar>;
          fs = nat_to_string (a mod 10 ^ k)
      in (if m < 0 then ''-'' else '''') @ nat_to_string (a div 10 ^ k) @ ''.'' @
         replicate (k - length fs) CHR ''0'' @ fs)"

text \<open>Joining with a separator, as \<^verbatim>\<open>Array.prototype.join\<close> does on strings.\<close>

fun join_with :: "string \<Rightarrow> string list \<Rightarrow> string" where
  "join_with sep [] = []"
| "join_with sep [x] = x"
| "join_with sep (x # y # ys) = x @ sep @ join_with sep (y # ys)"

text \<open>
  \<^verbatim>\<open>String(v)\<close> on a parsed value: an array is its elements joined by a comma, with null
  elements empty; any object is \<^verbatim>\<open>[object Object]\<close>.
\<close>

fun js_toString :: "json \<Rightarrow> string" where
  "js_toString JNull = ''null''"
| "js_toString (JBool b) = (if b then ''true'' else ''false'')"
| "js_toString (JNum n) = int_to_string n"
| "js_toString (JFrac m k) = frac_to_string m k"
| "js_toString (JStr s) = s"
| "js_toString (JArr xs) =
     join_with '','' (map (\<lambda>x. if x = JNull then [] else js_toString x) xs)"
| "js_toString (JObj kvs) = ''[object Object]''"

section \<open>JSON text\<close>

text \<open>
  \<^verbatim>\<open>JSON.parse\<close>, following the JSON grammar: whitespace is space, tab, line feed and
  carriage return; a number is an optional minus, an integer part without leading zeros,
  an optional fraction and an optional exponent; a string holds any byte from 0x20 on
  except the quote and the backslash, and the escapes. The parser runs on fuel; a result
  is \<open>Done v rest\<close>, \<open>Fail\<close> for a syntax error, or \<open>Stuck\<close> when the fuel is used up.
\<close>

datatype 'a presult = Done 'a string | Fail | Stuck

definition is_ws :: "char \<Rightarrow> bool" where
  "is_ws c = (c = CHR '' '' \<or> c = CHR 0x09 \<or> c = CHR 0x0A \<or> c = CHR 0x0D)"

definition skip_ws :: "string \<Rightarrow> string" where
  "skip_ws cs = dropWhile is_ws cs"

definition is_digit :: "char \<Rightarrow> bool" where
  "is_digit c = (48 \<le> (of_char c :: nat) \<and> (of_char c :: nat) \<le> 57)"

definition digit_val :: "char \<Rightarrow> nat" where
  "digit_val c = of_char c - 48"

definition digits_to_nat :: "string \<Rightarrow> nat" where
  "digits_to_nat ds = foldl (\<lambda>acc c. 10 * acc + digit_val c) 0 ds"

text \<open>The value of a hexadecimal digit, if the byte is one.\<close>

definition hex_val :: "char \<Rightarrow> nat option" where
  "hex_val c =
     (let n = (of_char c :: nat) in
      if 48 \<le> n \<and> n \<le> 57 then Some (n - 48)
      else if 65 \<le> n \<and> n \<le> 70 then Some (n - 55)
      else if 97 \<le> n \<and> n \<le> 102 then Some (n - 87)
      else None)"

definition hex4 :: "char \<Rightarrow> char \<Rightarrow> char \<Rightarrow> char \<Rightarrow> nat option" where
  "hex4 a b c d =
     (case (hex_val a, hex_val b, hex_val c, hex_val d) of
        (Some w, Some x, Some y, Some z) \<Rightarrow> Some (((w * 16 + x) * 16 + y) * 16 + z)
      | _ \<Rightarrow> None)"

text \<open>The UTF-8 bytes of a code point (a lone surrogate is written like any other).\<close>

definition utf8_encode :: "nat \<Rightarrow> string" where
  "utf8_encode cp =
     (if cp < 0x80 then [char_of cp]
      else if cp < 0x800 then [char_of (0xC0 + cp div 64), char_of (0x80 + cp mod 64)]
      else if cp < 0x10000 then
        [char_of (0xE0 + cp div 4096), char_of (0x80 + (cp div 64) mod 64),
         char_of (0x80 + cp mod 64)]
      else
        [char_of (0xF0 + cp div 262144), char_of (0x80 + (cp div 4096) mod 64),
         char_of (0x80 + (cp div 64) mod 64), char_of (0x80 + cp mod 64)])"

text \<open>
  The items of a string literal: a byte written as it is, or the code unit of a
  \<^verbatim>\<open>\uXXXX\<close> escape. \<open>parse_chars\<close> reads the literal after its opening quote.
\<close>

datatype str_item = Raw char | Esc nat

fun parse_chars :: "string \<Rightarrow> str_item list presult" where
  "parse_chars [] = Fail"
| "parse_chars (c # cs) =
     (if c = CHR 0x22 then Done [] cs
      else if c = CHR 0x5C then
        (case cs of
           [] \<Rightarrow> Fail
         | e # cs' \<Rightarrow>
             (if e = CHR ''u'' then
                (case cs' of
                   a # b # c' # d # cs'' \<Rightarrow>
                     (case hex4 a b c' d of
                        None \<Rightarrow> Fail
                      | Some cu \<Rightarrow>
                          (case parse_chars cs'' of
                             Done items rest \<Rightarrow> Done (Esc cu # items) rest
                           | r \<Rightarrow> r))
                 | _ \<Rightarrow> Fail)
              else
                (case (if e = CHR 0x22 then Some (CHR 0x22)
                       else if e = CHR 0x5C then Some (CHR 0x5C)
                       else if e = CHR ''/'' then Some (CHR ''/'')
                       else if e = CHR ''b'' then Some (CHR 0x08)
                       else if e = CHR ''f'' then Some (CHR 0x0C)
                       else if e = CHR ''n'' then Some (CHR 0x0A)
                       else if e = CHR ''r'' then Some (CHR 0x0D)
                       else if e = CHR ''t'' then Some (CHR 0x09)
                       else None) of
                   None \<Rightarrow> Fail
                 | Some x \<Rightarrow>
                     (case parse_chars cs' of
                        Done items rest \<Rightarrow> Done (Raw x # items) rest
                      | r \<Rightarrow> r))))
      else if (of_char c :: nat) < 0x20 then Fail
      else
        (case parse_chars cs of
           Done items rest \<Rightarrow> Done (Raw c # items) rest
         | r \<Rightarrow> r))"

text \<open>A high surrogate followed by a low one is one code point.\<close>

fun decode_items :: "str_item list \<Rightarrow> string" where
  "decode_items [] = []"
| "decode_items (Raw c # xs) = c # decode_items xs"
| "decode_items (Esc hi # Esc lo # xs) =
     (if 0xD800 \<le> hi \<and> hi < 0xDC00 \<and> 0xDC00 \<le> lo \<and> lo < 0xE000
      then utf8_encode (0x10000 + (hi - 0xD800) * 0x400 + (lo - 0xDC00)) @ decode_items xs
      else utf8_encode hi @ decode_items (Esc lo # xs))"
| "decode_items (Esc cu # xs) = utf8_encode cu @ decode_items xs"

definition parse_string :: "string \<Rightarrow> string presult" where
  "parse_string cs =
     (case parse_chars cs of
        Done items rest \<Rightarrow> Done (decode_items items) rest
      | Fail \<Rightarrow> Fail
      | Stuck \<Rightarrow> Stuck)"

text \<open>
  \<open>normalize m k\<close> is the number \<open>m / 10 ^ k\<close> with the trailing zeros of its
  fraction removed.
\<close>

fun normalize :: "nat \<Rightarrow> nat \<Rightarrow> nat \<times> nat" where
  "normalize m 0 = (m, 0)"
| "normalize m (Suc k) = (if m mod 10 = 0 then normalize (m div 10) k else (m, Suc k))"

definition make_number :: "bool \<Rightarrow> nat \<Rightarrow> int \<Rightarrow> json" where
  "make_number neg m e =
     (let sgn = (if neg then - 1 else 1 :: int) in
      if 0 \<le> e then JNum (sgn * int m * 10 ^ nat e)
      else (case normalize m (nat (- e)) of
              (m', 0) \<Rightarrow> JNum (sgn * int m')
            | (m', Suc k) \<Rightarrow> JFrac (sgn * int m') (Suc k)))"

text \<open>The integer part: a single zero, or digits starting with a non-zero one.\<close>

definition parse_int_part :: "string \<Rightarrow> (string \<times> string) option" where
  "parse_int_part cs =
     (case cs of
        [] \<Rightarrow> None
      | c # cs' \<Rightarrow>
          (if c = CHR ''0'' then Some ([c], cs')
           else if is_digit c then Some (takeWhile is_digit cs, dropWhile is_digit cs)
           else None))"

definition parse_frac_part :: "string \<Rightarrow> (string \<times> string) option" where
  "parse_frac_part cs =
     (case cs of
        c # cs' \<Rightarrow>
          (if c = CHR ''.'' then
             (if takeWhile is_digit cs' = [] then None
              else Some (takeWhile is_digit cs', dropWhile is_digit cs'))
           else Some ([], cs))
      | [] \<Rightarrow> Some ([], cs))"

definition parse_exp_digits :: "bool \<Rightarrow> string \<Rightarrow> (int \<times> string) option" where
  "parse_exp_digits neg cs =
     (if takeWhile is_digit cs = [] then None
      else Some ((if neg then - 1 else 1) * int (digits_to_nat (takeWhile is_digit cs)),
                 dropWhile is_digit cs))"

definition parse_exp_part :: "string \<Rightarrow> (int \<times> string) option" where
  "parse_exp_part cs =
     (case cs of
        c # cs' \<Rightarrow>
          (if c = CHR ''e'' \<or> c = CHR ''E'' then
             (case cs' of
                s # cs'' \<Rightarrow>
                  (if s = CHR ''+'' then parse_exp_digits False cs''
                   else if s = CHR ''-'' then parse_exp_digits True cs''
                   else parse_exp_digits False cs')
              | [] \<Rightarrow> None)
           else Some (0, cs))
      | [] \<Rightarrow> Some (0, cs))"

definition parse_number :: "string \<Rightarrow> json presult" where
  "parse_number cs =
     (let neg = (case cs of c # _ \<Rightarrow> c = CHR ''-'' | [] \<Rightarrow> False);
          cs1 = (if neg then tl cs else cs)
      in case parse_int_part cs1 of
           None \<Rightarrow> Fail
         | Some (ds, cs2) \<Rightarrow>
             (case parse_frac_part cs2 of
                None \<Rightarrow> Fail
              | Some (fs, cs3) \<Rightarrow>
                  (case parse_exp_part cs3 of
                     None \<Rightarrow> Fail
                   | Some (ex, cs4) \<Rightarrow>
                       Done (make_number neg (digits_to_nat (ds @ fs)) (ex - int (length fs)))
                         cs4)))"

fun strip_prefix :: "string \<Rightarrow> string \<Rightarrow> string option" where
  "strip_prefix [] cs = Some cs"
| "strip_prefix (p # ps) [] = None"
| "strip_prefix (p # ps) (c # cs) = (if p = c then strip_prefix ps cs else None)"

definition parse_literal :: "string \<Rightarrow> json \<Rightarrow> string \<Rightarrow> json presult" where
  "parse_literal word v cs = (case strip_prefix word cs of Some rest \<Rightarrow> Done v rest | None \<Rightarrow> Fail)"

text \<open>
  \<open>parse_value\<close> reads one value after optional whitespace; \<open>parse_elements\<close> reads
  the elements of a non-empty array up to its bracket, \<open>parse_members\<close> the members of a
  non-empty object up to its brace.
\<close>

fun parse_value :: "nat \<Rightarrow> string \<Rightarrow> json presult"
  and parse_elements :: "nat \<Rightarrow> string \<Rightarrow> json list presult"
  and parse_members :: "nat \<Rightarrow> string \<Rightarrow> (string \<times> json) list presult" where
  "parse_value 0 cs = Stuck"
| "parse_value (Suc n) cs =
     (case skip_ws cs of
        [] \<Rightarrow> Fail
      | c # r \<Rightarrow>
          (if c = CHR ''n'' then parse_literal ''null'' JNull (c # r)
           else if c = CHR ''t'' then parse_literal ''true'' (JBool True) (c # r)
           else if c = CHR ''f'' then parse_literal ''false'' (JBool False) (c # r)
           else if c = CHR 0x22 then
             (case parse_string r of
                Done s rest \<Rightarrow> Done (JStr s) rest
              | Fail \<Rightarrow> Fail
              | Stuck \<Rightarrow> Stuck)
           else if c = CHR ''['' then
             (case skip_ws r of
                [] \<Rightarrow> Fail
              | d # r' \<Rightarrow>
                  (if d = CHR '']'' then Done (JArr []) r'
                   else (case parse_elements n (d # r') of
                           Done vs rest \<Rightarrow> Done (JArr vs) rest
                         | Fail \<Rightarrow> Fail
                         | Stuck \<Rightarrow> Stuck)))
           else if c = CHR ''{'' then
             (case skip_ws r of
                [] \<Rightarrow> Fail
              | d # r' \<Rightarrow>
                  (if d = CHR ''}'' then Done (JObj []) r'
                   else (case parse_members n (d # r') of
                           Done kvs rest \<Rightarrow> Done (JObj kvs) rest
                         | Fail \<Rightarrow> Fail
                         | Stuck \<Rightarrow> Stuck)))
           else if c = CHR ''-'' \<or> is_digit c then parse_number (c # r)
           else Fail))"
| "parse_elements 0 cs = Stuck"
| "parse_elements (Suc n) cs =
     (case parse_value n cs of
        Fail \<Rightarrow> Fail
      | Stuck \<Rightarrow> Stuck
      | Done v r \<Rightarrow>
          (case skip_ws r of
             [] \<Rightarrow> Fail
           | c # r' \<Rightarrow>
               (if c = CHR '','' then
                  (case parse_elements n r' of
                     Done vs rest \<Rightarrow> Done (v # vs) rest
                   | Fail \<Rightarrow> Fail
                   | Stuck \<Rightarrow> Stuck)
                else if c = CHR '']'' then Done [v] r'
                else Fail)))"
| "parse_members 0 cs = Stuck"
| "parse_members (Suc n) cs =
     (case skip_ws cs of
        [] \<Rightarrow> Fail
      | q # r \<Rightarrow>
          (if q \<noteq> CHR 0x22 then Fail
           else (case parse_string r of
                   Fail \<Rightarrow> Fail
                 | Stuck \<Rightarrow> Stuck
                 | Done k r1 \<Rightarrow>
                     (case skip_ws r1 of
                        [] \<Rightarrow> Fail
                      | c # r2 \<Rightarrow>
                          (if c \<noteq> CHR '':'' then Fail
                           else (case parse_value n r2 of
                                   Fail \<Rightarrow> Fail
                                 | Stuck \<Rightarrow> Stuck
                                 | Done v r3 \<Rightarrow>
                                     (case skip_ws r3 of
                                        [] \<Rightarrow> Fail
                                      | s # r4 \<Rightarrow>
                                          (if s = CHR '','' then
                                             (case parse_members n r4 of
                                                Done kvs rest \<Rightarrow> Done ((k, v) # kvs) rest
                                              | Fail \<Rightarrow> Fail
                                              | Stuck \<Rightarrow> Stuck)
                                           else if s = CHR ''}'' then Done [(k, v)] r4
                                           else Fail))))))))"

text \<open>
  \<^verbatim>\<open>JSON.parse(text)\<close>: one value, then nothing but whitespace. \<open>None\<close> is the
  \<^verbatim>\<open>SyntaxError\<close>. Every call that goes one level down has read a byte first, so two
  units of fuel for each byte are enough.
\<close>

definition JSON_parse :: "string \<Rightarrow> json option" where
  "JSON_parse txt =
     (case parse_value (2 * length txt + 2) txt of
        Done v rest \<Rightarrow> (if skip_ws rest = [] then Some v else None)
      | Fail \<Rightarrow> None
      | Stuck \<Rightarrow> None)"

text \<open>
  \<^verbatim>\<open>JSON.stringify\<close> without indentation: the quote, the backslash and the bytes
  below 0x20 are escaped in a string, every other byte is written as it is. A number is
  written in full decimal digits.
\<close>

definition hex_digit :: "nat \<Rightarrow> char" where
  "hex_digit d = (if d < 10 then char_of (48 + d) else char_of (87 + d))"

definition escape_char :: "char \<Rightarrow> string" where
  "escape_char c =
     (if c = CHR 0x22 then [CHR 0x5C, CHR 0x22]
      else if c = CHR 0x5C then [CHR 0x5C, CHR 0x5C]
      else if c = CHR 0x08 then [CHR 0x5C, CHR ''b'']
      else if c = CHR 0x0C then [CHR 0x5C, CHR ''f'']
      else if c = CHR 0x0A then [CHR 0x5C, CHR ''n'']
      else if c = CHR 0x0D then [CHR 0x5C, CHR ''r'']
      else if c = CHR 0x09 then [CHR 0x5C, CHR ''t'']
      else if (of_char c :: nat) < 0x20 then
        [CHR 0x5C, CHR ''u'', CHR ''0'', CHR ''0'',
         hex_digit (of_char c div 16), hex_digit (of_char c mod 16)]
      else [c])"

definition quote :: "string \<Rightarrow> string" where
  "quote s = CHR 0x22 # concat (map escape_char s) @ [CHR 0x22]"

fun JSON_stringify :: "json \<Rightarrow> string" where
  "JSON_stringify JNull = ''null''"
| "JSON_stringify (JBool b) = (if b then ''true'' else ''false'')"
| "JSON_stringify (JNum n) = int_to_string n"
| "JSON_stringify (JFrac m k) = frac_to_string m k"
| "JSON_stringify (JStr s) = quote s"
| "JSON_stringify (JArr xs) = ''['' @ join_with '','' (map JSON_stringify xs) @ '']''"
| "JSON_stringify (JObj kvs) =
     ''{'' @ join_with '','' (map (\<lambda>kv. quote (fst kv) @ '':'' @ JSON_stringify (snd kv)) kvs) @ ''}''"

section \<open>Errors\<close>

text \<open>
  What the code throws: the \<^verbatim>\<open>SyntaxError\<close> of \<^verbatim>\<open>JSON.parse\<close>, the
  \<^verbatim>\<open>TypeError\<close> of reading a property of null or undefined, and the two errors that
  \<^verbatim>\<open>send\<close> raises itself.
\<close>

datatype error = SyntaxError | TypeError | NotConnected | MissingType

definition bind_e :: "error + 'a \<Rightarrow> ('a \<Rightarrow> error + 'b) \<Rightarrow> error + 'b" where
  "bind_e m f = (case m of Inl e \<Rightarrow> Inl e | Inr x \<Rightarrow> f x)"

definition JSON_parse_throw :: "string \<Rightarrow> error + json" where
  "JSON_parse_throw txt = (case JSON_parse txt of None \<Rightarrow> Inl SyntaxError | Some v \<Rightarrow> Inr v)"

text \<open>
  \<^verbatim>\<open>v.key\<close> on a parsed value, for the keys this code reads (\<^verbatim>\<open>link\<close>,
  \<^verbatim>\<open>size\<close>, \<^verbatim>\<open>url\<close>, \<^verbatim>\<open>type\<close> and so on): null throws, an
  object gives its member, the last one when the text repeated the key, and any other
  value gives undefined, or for \<^verbatim>\<open>link\<close> on a string a method without the members
  read from it. \<open>js_get_opt\<close> is \<^verbatim>\<open>x?.key\<close>.
\<close>

fun js_get :: "json \<Rightarrow> string \<Rightarrow> error + jsval" where
  "js_get JNull k = Inl TypeError"
| "js_get (JObj kvs) k = Inr (map_of (rev kvs) k)"
| "js_get v k = Inr None"

fun js_get_opt :: "jsval \<Rightarrow> string \<Rightarrow> error + jsval" where
  "js_get_opt None k = Inr None"
| "js_get_opt (Some JNull) k = Inr None"
| "js_get_opt (Some v) k = js_get v k"

section \<open>Message segments (types.ts) and the builder (message.ts)\<close>

text \<open>
  One constructor per segment kind of \<^verbatim>\<open>MessageSegment\<close>. The attributes that the
  parser fills from parsed content are JavaScript values, the others have their declared
  types. The attributes are, in order: \<open>Text text\<close>, \<open>Image file url width height\<close>,
  \<open>Video file url duration\<close>, \<open>Voice file url duration\<close>, \<open>Card content cardType\<close>,
  \<open>Note noteId title content url\<close>, \<open>Emoticon id name url\<close>, \<open>At userId name\<close>.
  \<open>Unrecognized tag\<close> is a segment whose \<^verbatim>\<open>type\<close> tag is none of the eight.
\<close>

datatype MessageSegment =
    Text string
  | Image jsval jsval jsval jsval
  | Video jsval jsval jsval
  | Voice jsval jsval jsval
  | Card string "string option"
  | Note string "string option" "string option" "string option"
  | Emoticon jsval jsval jsval
  | At string "string option"
  | Unrecognized string

type_synonym MessageChain = "MessageSegment list"

definition label_image :: string where
  "label_image = [CHR ''['', CHR 0xE5, CHR 0x9B, CHR 0xBE, CHR 0xE7, CHR 0x89, CHR 0x87, CHR '']'']"

definition label_video :: string where
  "label_video = [CHR ''['', CHR 0xE8, CHR 0xA7, CHR 0x86, CHR 0xE9, CHR 0xA2, CHR 0x91, CHR '']'']"

definition label_voice :: string where
  "label_voice = [CHR ''['', CHR 0xE8, CHR 0xAF, CHR 0xAD, CHR 0xE9, CHR 0x9F, CHR 0xB3, CHR '']'']"

definition label_card :: string where
  "label_card = [CHR ''['', CHR 0xE5, CHR 0x8D, CHR 0xA1, CHR 0xE7, CHR 0x89, CHR 0x87, CHR '']'']"

definition label_note :: string where
  "label_note = [CHR ''['', CHR 0xE7, CHR 0xAC, CHR 0x94, CHR 0xE8, CHR 0xAE, CHR 0xB0, CHR '']'']"

definition label_emoticon :: string where
  "label_emoticon = [CHR ''['', CHR 0xE8, CHR 0xA1, CHR 0xA8, CHR 0xE6, CHR 0x83, CHR 0x85, CHR '']'']"

definition label_unknown :: string where
  "label_unknown = [CHR ''['', CHR 0xE6, CHR 0x9C, CHR 0xAA, CHR 0xE7, CHR 0x9F, CHR 0xA5,
     CHR 0xE6, CHR 0xB6, CHR 0x88, CHR 0xE6, CHR 0x81, CHR 0xAF, CHR '']'']"

text \<open>
  The arrow function mapped over the chain by \<^verbatim>\<open>chainToText\<close>, followed by the
  conversion to a string that \<^verbatim>\<open>join\<close> applies to each element.
\<close>

fun segmentToText :: "MessageSegment \<Rightarrow> string" where
  "segmentToText (Text t) = t"
| "segmentToText (Image f u w h) = label_image"
| "segmentToText (Video f u d) = label_video"
| "segmentToText (Voice f u d) = label_voice"
| "segmentToText (Card c ct) = label_card"
| "segmentToText (Note n t c u) = label_note"
| "segmentToText (Emoticon i n u) =
     (case n of
        None \<Rightarrow> label_emoticon
      | Some v \<Rightarrow> (if js_truthy (Some v) then js_toString v else label_emoticon))"
| "segmentToText (At u n) =
     CHR ''@'' # (case n of Some nm \<Rightarrow> (if nm \<noteq> [] then nm else u) | None \<Rightarrow> u)"
| "segmentToText (Unrecognized t) = label_unknown"

definition chainToText :: "MessageChain \<Rightarrow> string" where
  "chainToText chain = concat (map segmentToText chain)"

subsection \<open>MessageBuilder\<close>

definition text_seg :: "string \<Rightarrow> MessageSegment" where
  "text_seg t = Text t"

definition image :: "jsval \<Rightarrow> jsval \<Rightarrow> jsval \<Rightarrow> jsval \<Rightarrow> MessageSegment" where
  "image file url width height = Image file url width height"

definition video :: "jsval \<Rightarrow> jsval \<Rightarrow> jsval \<Rightarrow> MessageSegment" where
  "video file url duration = Video file url duration"

definition voice :: "jsval \<Rightarrow> jsval \<Rightarrow> jsval \<Rightarrow> MessageSegment" where
  "voice file url duration = Voice file url duration"

definition card :: "string \<Rightarrow> string option \<Rightarrow> MessageSegment" where
  "card content cardType = Card content cardType"

definition note_seg :: "string \<Rightarrow> string option \<Rightarrow> string option \<Rightarrow> string option \<Rightarrow> MessageSegment" where
  "note_seg noteId title content url = Note noteId title content url"

definition emoticon :: "jsval \<Rightarrow> jsval \<Rightarrow> jsval \<Rightarrow> MessageSegment" where
  "emoticon ident name url = Emoticon ident name url"

definition at :: "string \<Rightarrow> string option \<Rightarrow> MessageSegment" where
  "at userId name = At userId name"

definition fromString :: "string \<Rightarrow> MessageChain" where
  "fromString t = [text_seg t]"

definition fromSegments :: "MessageSegment list \<Rightarrow> MessageChain" where
  "fromSegments segments = segments"

subsection \<open>MessageParser.parseMessage\<close>

text \<open>
  The bodies of the four \<^verbatim>\<open>try\<close> blocks. Each parses the content and reads the
  attributes in the order of the source; the segment is pushed last, so a throw leaves the
  chain empty.
\<close>

definition image_of_content :: "string \<Rightarrow> error + MessageSegment" where
  "image_of_content content =
     bind_e (JSON_parse_throw content) (\<lambda>imageData.
     bind_e (js_get imageData ''link'') (\<lambda>link.
     bind_e (js_get_opt link ''preViewUrl'') (\<lambda>url.
     bind_e (js_get imageData ''size'') (\<lambda>size1.
     bind_e (js_get_opt size1 ''width'') (\<lambda>width.
     bind_e (js_get imageData ''size'') (\<lambda>size2.
     bind_e (js_get_opt size2 ''height'') (\<lambda>height.
     Inr (image None url width height))))))))"

definition video_of_content :: "string \<Rightarrow> error + MessageSegment" where
  "video_of_content content =
     bind_e (JSON_parse_throw content) (\<lambda>videoData.
     bind_e (js_get videoData ''url'') (\<lambda>url.
     bind_e (js_get videoData ''duration'') (\<lambda>duration.
     Inr (video None url duration))))"

definition voice_of_content :: "string \<Rightarrow> error + MessageSegment" where
  "voice_of_content content =
     bind_e (JSON_parse_throw content) (\<lambda>voiceData.
     bind_e (js_get voiceData ''url'') (\<lambda>url.
     bind_e (js_get voiceData ''duration'') (\<lambda>duration.
     Inr (voice None url duration))))"

definition emoticon_of_content :: "string \<Rightarrow> error + MessageSegment" where
  "emoticon_of_content content =
     bind_e (JSON_parse_throw content) (\<lambda>emoticonData.
     bind_e (js_get emoticonData ''id'') (\<lambda>ident.
     bind_e (js_get emoticonData ''name'') (\<lambda>name.
     bind_e (js_get emoticonData ''url'') (\<lambda>url.
     Inr (emoticon (if js_truthy ident then ident else Some (JStr content)) name url)))))"

text \<open>
  The \<^verbatim>\<open>switch\<close> over the discriminator. The result is a sum so that a throw
  escaping the function would show as \<open>Inl\<close>.
\<close>

definition parseMessage :: "string \<Rightarrow> string \<Rightarrow> error + MessageChain" where
  "parseMessage messageType content =
     (if messageType = ''TEXT'' then Inr [text_seg content]
      else if messageType = ''IMAGE'' then
        (case image_of_content content of
           Inr seg \<Rightarrow> Inr [seg]
         | Inl e \<Rightarrow> Inr [text_seg content])
      else if messageType = ''VIDEO'' then
        (case video_of_content content of
           Inr seg \<Rightarrow> Inr [seg]
         | Inl e \<Rightarrow> Inr [text_seg content])
      else if messageType = ''VOICE'' then
        (case voice_of_content content of
           Inr seg \<Rightarrow> Inr [seg]
         | Inl e \<Rightarrow> Inr [text_seg content])
      else if messageType = ''CARD'' then Inr [card content None]
      else if messageType = ''NOTE'' then Inr [note_seg content None None None]
      else if messageType = ''EMOTICON'' then
        (case emoticon_of_content content of
           Inr seg \<Rightarrow> Inr [seg]
         | Inl e \<Rightarrow> Inr [emoticon (Some (JStr content)) None None])
      else Inr [text_seg content])"

section \<open>RedoteCrypto.aesEcbEncrypt (crypto.ts)\<close>

text \<open>
  A buffer is a list of bytes. The block cipher itself belongs to the platform and is a
  parameter \<open>aes\<close>: \<open>aes key block\<close> is the AES-128 encryption of one sixteen-byte
  block. The key handling, the padding, the block chaining and the text encoding around
  it are modelled in full.
\<close>

type_synonym byte = "8 word"

definition Buffer_from_utf8 :: "string \<Rightarrow> byte list" where
  "Buffer_from_utf8 str = map (\<lambda>c. of_nat (of_char c)) str"

definition Buffer_alloc :: "nat \<Rightarrow> byte list" where
  "Buffer_alloc n = replicate n 0"

text \<open>\<^verbatim>\<open>source.copy(target)\<close>: the bytes of the source that fit overwrite the start of the target.\<close>

definition Buffer_copy :: "byte list \<Rightarrow> byte list \<Rightarrow> byte list" where
  "Buffer_copy source target = take (length target) source @ drop (length source) target"

definition adjustKey :: "byte list \<Rightarrow> byte list" where
  "adjustKey keyBuffer =
     (if length keyBuffer \<le> 16 then Buffer_copy keyBuffer (Buffer_alloc 16)
      else if length keyBuffer \<le> 24 then Buffer_copy keyBuffer (Buffer_alloc 24)
      else Buffer_copy keyBuffer (Buffer_alloc 32))"

text \<open>Automatic padding: between one and sixteen bytes, each holding their number.\<close>

definition pkcs7_pad :: "byte list \<Rightarrow> byte list" where
  "pkcs7_pad bs = (let p = 16 - length bs mod 16 in bs @ replicate p (of_nat p))"

function blocks16 :: "byte list \<Rightarrow> byte list list" where
  "blocks16 bs = (if bs = [] then [] else take 16 bs # blocks16 (drop 16 bs))"
  by pat_completeness auto
termination
  by (relation "measure length") auto

declare blocks16.simps [simp del]

definition ecb_blocks :: "(byte list \<Rightarrow> byte list \<Rightarrow> byte list) \<Rightarrow> byte list \<Rightarrow> byte list \<Rightarrow> byte list list" where
  "ecb_blocks aes key plain = map (aes key) (blocks16 (pkcs7_pad plain))"

text \<open>
  \<^verbatim>\<open>cipher.update\<close> returns every block but the last, \<^verbatim>\<open>cipher.final\<close> the last
  one, which holds the padding.
\<close>

definition cipher_update :: "(byte list \<Rightarrow> byte list \<Rightarrow> byte list) \<Rightarrow> byte list \<Rightarrow> byte list \<Rightarrow> byte list" where
  "cipher_update aes key plain = concat (butlast (ecb_blocks aes key plain))"

definition cipher_final :: "(byte list \<Rightarrow> byte list \<Rightarrow> byte list) \<Rightarrow> byte list \<Rightarrow> byte list \<Rightarrow> byte list" where
  "cipher_final aes key plain = last (ecb_blocks aes key plain)"

definition base64_alphabet :: string where
  "base64_alphabet = ''ABCDEFGHIJKLMNOPQRSTUVWXYZabcdefghijklmnopqrstuvwxyz0123456789+/''"

definition b64 :: "nat \<Rightarrow> char" where
  "b64 i = base64_alphabet ! (i mod 64)"

fun base64 :: "byte list \<Rightarrow> string" where
  "base64 [] = []"
| "base64 [a] =
     [b64 (unat a div 4), b64 ((unat a mod 4) * 16), CHR ''='', CHR ''='']"
| "base64 [a, b] =
     [b64 (unat a div 4), b64 ((unat a mod 4) * 16 + unat b div 16),
      b64 ((unat b mod 16) * 4), CHR ''='']"
| "base64 (a # b # c # rest) =
     [b64 (unat a div 4), b64 ((unat a mod 4) * 16 + unat b div 16),
      b64 ((unat b mod 16) * 4 + unat c div 64), b64 (unat c mod 64)] @ base64 rest"

text \<open>
  With an output encoding the cipher keeps a decoder between \<^verbatim>\<open>update\<close> and
  \<^verbatim>\<open>final\<close>: \<open>decoder_write\<close> encodes the whole groups of three bytes and holds the
  rest back, \<open>decoder_end\<close> encodes what was held back followed by the last bytes.
\<close>

definition decoder_write :: "byte list \<Rightarrow> string \<times> byte list" where
  "decoder_write buf =
     (let n = length buf - length buf mod 3 in (base64 (take n buf), drop n buf))"

definition decoder_end :: "byte list \<Rightarrow> byte list \<Rightarrow> string" where
  "decoder_end held buf = base64 (held @ buf)"

text \<open>The three \<^verbatim>\<open>replace\<close> calls: plus to minus, slash to underscore, equals signs removed.\<close>

definition url_safe :: "string \<Rightarrow> string" where
  "url_safe str =
     filter (\<lambda>c. c \<noteq> CHR ''='')
       (map (\<lambda>c. if c = CHR ''/'' then CHR ''_'' else c)
         (map (\<lambda>c. if c = CHR ''+'' then CHR ''-'' else c) str))"

definition aesEcbEncrypt :: "(byte list \<Rightarrow> byte list \<Rightarrow> byte list) \<Rightarrow> string \<Rightarrow> string \<Rightarrow> string" where
  "aesEcbEncrypt aes key plaintext =
     (let keyBuffer = Buffer_from_utf8 key;
          adjustedKey = adjustKey keyBuffer;
          window = take 16 adjustedKey;
          plain = Buffer_from_utf8 plaintext;
          (encrypted1, held) = decoder_write (cipher_update aes window plain);
          encrypted = encrypted1 @ decoder_end held (cipher_final aes window plain)
      in url_safe encrypted)"



section \<open>The wire envelope (types.ts)\<close>

text \<open>
  \<^verbatim>\<open>WebSocketMessage\<close>, and \<^verbatim>\<open>Partial<WebSocketMessage>\<close> alike: every property
  may be absent, and nothing at run time checks the declared types, so each holds a
  JavaScript value. The fields carry the prefix \<open>m_\<close>.
\<close>

record WebSocketMessage =
  m_type :: jsval
  m_seq :: jsval
  m_ack :: jsval
  m_token :: jsval
  m_appId :: jsval
  m_topic :: jsval
  m_encrypt :: jsval
  m_secureKey :: jsval
  m_data :: jsval

definition empty_message :: WebSocketMessage where
  "empty_message =
     \<lparr>m_type = None, m_seq = None, m_ack = None, m_token = None, m_appId = None,
      m_topic = None, m_encrypt = None, m_secureKey = None, m_data = None\<rparr>"

text \<open>
  The object handed to \<^verbatim>\<open>JSON.stringify\<close>: the properties that are defined, the type
  first and the sequence number last, as in every envelope this client builds.
\<close>

definition property :: "string \<Rightarrow> jsval \<Rightarrow> (string \<times> json) list" where
  "property k v = (case v of None \<Rightarrow> [] | Some x \<Rightarrow> [(k, x)])"

definition toJSON :: "WebSocketMessage \<Rightarrow> json" where
  "toJSON m =
     JObj (property ''type'' (m_type m) @ property ''ack'' (m_ack m) @ property ''token'' (m_token m) @
           property ''appId'' (m_appId m) @ property ''topic'' (m_topic m) @
           property ''encrypt'' (m_encrypt m) @ property ''secureKey'' (m_secureKey m) @
           property ''data'' (m_data m) @ property ''seq'' (m_seq m))"

text \<open>
  The parsed frame seen \<^verbatim>\<open>as WebSocketMessage\<close>: the nine properties of an object; a
  number, string, boolean or array has none of them; null has no properties to read, which
  is \<open>None\<close>.
\<close>

fun fromJSON :: "json \<Rightarrow> WebSocketMessage option" where
  "fromJSON JNull = None"
| "fromJSON (JObj kvs) =
     Some \<lparr>m_type = map_of (rev kvs) ''type'', m_seq = map_of (rev kvs) ''seq'',
           m_ack = map_of (rev kvs) ''ack'', m_token = map_of (rev kvs) ''token'',
           m_appId = map_of (rev kvs) ''appId'', m_topic = map_of (rev kvs) ''topic'',
           m_encrypt = map_of (rev kvs) ''encrypt'',
           m_secureKey = map_of (rev kvs) ''secureKey'', m_data = map_of (rev kvs) ''data''\<rparr>"
| "fromJSON v = Some empty_message"

text \<open>The inbound path: the frame text is parsed and read as an envelope.\<close>

definition decode :: "string \<Rightarrow> WebSocketMessage option" where
  "decode frame = (case JSON_parse frame of None \<Rightarrow> None | Some v \<Rightarrow> fromJSON v)"

fun is_number :: "jsval \<Rightarrow> bool" where
  "is_number (Some (JNum n)) = True"
| "is_number (Some (JFrac m k)) = True"
| "is_number v = False"

section \<open>The client and its surroundings (websocket-client.ts)\<close>

text \<open>
  The state holds the fields of \<^verbatim>\<open>RedoteWebSocketClient\<close> under their own names, and
  what the client acts on: the sockets it has created, the pending timers of the runtime
  with the clock, and the trace of what the client did, in order. A socket is known by
  its index in \<open>sockets\<close>, a timer by its identifier.
\<close>

datatype ReadyState = CONNECTING | OPEN | CLOSING | CLOSED

text \<open>
  For each socket: its state, whether the promise that \<^verbatim>\<open>connect\<close> awaits is still
  unsettled, and whether the \<^verbatim>\<open>once('error')\<close> listener is still attached.
\<close>

record socket =
  readyState :: ReadyState
  connect_pending :: bool
  error_once :: bool

datatype timer_kind = HeartbeatTimer | ReconnectTimer

record timer =
  timer_id :: nat
  kind :: timer_kind
  due :: nat

datatype event =
    Reconnecting
  | Connected
  | Disconnected
  | ErrorEvent
  | RawMessage WebSocketMessage

text \<open>
  The trace records, with the time: a socket created, a frame handed to a socket, a socket
  asked to close, an event emitted to the listeners.
\<close>

datatype effect =
    NewSocket nat
  | SocketSend nat string
  | SocketClose nat
  | Emit event

record WebSocketClientConfig =
  userId :: string
  sellerId :: string
  uri :: string
  appId :: string
  token :: string
  appName :: string
  appVersion :: string
  retryInterval :: nat

record state =
  config :: WebSocketClientConfig
  websocket :: "nat option"
  seq :: int
  heartbeatTimer :: "nat option"
  reconnectTimer :: "nat option"
  isConnecting :: bool
  shouldReconnect :: bool
  sockets :: "socket list"
  timers :: "timer list"
  next_timer :: nat
  now :: nat
  trace :: "(nat \<times> effect) list"

text \<open>The constructor: the defaults, overridden by the two required identifiers.\<close>

definition default_config :: "string \<Rightarrow> string \<Rightarrow> WebSocketClientConfig" where
  "default_config uid sid =
     \<lparr>userId = uid, sellerId = sid, uri = ''wss://zelda.xiaohongshu.com/websocketV2'',
      appId = ''647e8f23d15d890d5cc02700'',
      token = ''7f54749ef19aaf9966ed7a616982c016bda5dfba'',
      appName = ''walle-ad'', appVersion = ''0.21.0'', retryInterval = 3\<rparr>"

definition init :: "WebSocketClientConfig \<Rightarrow> state" where
  "init cfg =
     \<lparr>config = cfg, websocket = None, seq = 0, heartbeatTimer = None, reconnectTimer = None,
      isConnecting = False, shouldReconnect = True, sockets = [], timers = [],
      next_timer = 0, now = 0, trace = []\<rparr>"

definition record_effect :: "effect \<Rightarrow> state \<Rightarrow> state" where
  "record_effect e s = s\<lparr>trace := trace s @ [(now s, e)]\<rparr>"

definition emit :: "event \<Rightarrow> state \<Rightarrow> state" where
  "emit ev s = record_effect (Emit ev) s"

text \<open>\<^verbatim>\<open>setTimeout\<close> and \<^verbatim>\<open>clearTimeout\<close> of the runtime.\<close>

definition setTimeout :: "timer_kind \<Rightarrow> nat \<Rightarrow> state \<Rightarrow> nat \<times> state" where
  "setTimeout k delay s =
     (next_timer s,
      s\<lparr>timers := timers s @ [\<lparr>timer_id = next_timer s, kind = k, due = now s + delay\<rparr>],
        next_timer := next_timer s + 1\<rparr>)"

definition clearTimeout :: "nat \<Rightarrow> state \<Rightarrow> state" where
  "clearTimeout i s = s\<lparr>timers := filter (\<lambda>t. timer_id t \<noteq> i) (timers s)\<rparr>"

text \<open>\<open>open_socket s\<close>: the socket the client holds, when it has one in state \<^verbatim>\<open>OPEN\<close>.\<close>

definition open_socket :: "state \<Rightarrow> nat option" where
  "open_socket s =
     (case websocket s of
        None \<Rightarrow> None
      | Some i \<Rightarrow>
          (if i < length (sockets s) \<and> readyState (sockets s ! i) = OPEN then Some i else None))"

text \<open>The outbound path: the text that \<^verbatim>\<open>JSON.stringify\<close> makes of an envelope.\<close>

definition encode :: "WebSocketMessage \<Rightarrow> string" where
  "encode message = JSON_stringify (toJSON message)"

text \<open>
  \<^verbatim>\<open>send\<close>. The result pairs what the call did, return or throw, with the state it
  left: a throw does not undo what came before it.
\<close>

definition send :: "WebSocketMessage \<Rightarrow> state \<Rightarrow> (error + unit) \<times> state" where
  "send data s =
     (case open_socket s of
        None \<Rightarrow> (Inl NotConnected, s)
      | Some i \<Rightarrow>
          (if \<not> is_number (m_type data) then (Inl MissingType, s)
           else
             (let s1 = s\<lparr>seq := seq s + 1\<rparr>;
                  message = data\<lparr>m_seq := Some (JNum (seq s1))\<rparr>
              in (Inr (), record_effect (SocketSend i (encode message)) s1))))"

definition sendAuthMessage :: "state \<Rightarrow> (error + unit) \<times> state" where
  "sendAuthMessage s =
     send (empty_message\<lparr>m_type := Some (JNum 1),
                         m_token := Some (JStr (token (config s))),
                         m_appId := Some (JStr (appId (config s)))\<rparr>) s"

definition clearHeartbeat :: "state \<Rightarrow> state" where
  "clearHeartbeat s =
     (case heartbeatTimer s of
        None \<Rightarrow> s
      | Some i \<Rightarrow> (clearTimeout i s)\<lparr>heartbeatTimer := None\<rparr>)"

definition startHeartbeat :: "nat \<Rightarrow> state \<Rightarrow> state" where
  "startHeartbeat interval s =
     (let (i, s1) = setTimeout HeartbeatTimer interval (clearHeartbeat s)
      in s1\<lparr>heartbeatTimer := Some i\<rparr>)"

text \<open>The callback of the heartbeat timer: the failure of the send is caught and logged.\<close>

definition heartbeat_callback :: "state \<Rightarrow> state" where
  "heartbeat_callback s = snd (send (empty_message\<lparr>m_type := Some (JNum 4)\<rparr>) s)"

definition scheduleReconnect :: "state \<Rightarrow> state" where
  "scheduleReconnect s =
     (case reconnectTimer s of
        Some i \<Rightarrow> s
      | None \<Rightarrow>
          (let (i, s1) = setTimeout ReconnectTimer (retryInterval (config s) * 1000) s
           in s1\<lparr>reconnectTimer := Some i\<rparr>))"

definition cleanup :: "state \<Rightarrow> state" where
  "cleanup s = (clearHeartbeat (s\<lparr>seq := 0\<rparr>))\<lparr>websocket := None\<rparr>"

text \<open>\<^verbatim>\<open>socket.close()\<close>: a socket that is not closed yet starts closing.\<close>

definition socket_close :: "nat \<Rightarrow> state \<Rightarrow> state" where
  "socket_close i s =
     record_effect (SocketClose i)
       (if i < length (sockets s) \<and> readyState (sockets s ! i) \<noteq> CLOSED
        then s\<lparr>sockets := (sockets s)[i := (sockets s ! i)\<lparr>readyState := CLOSING\<rparr>]\<rparr>
        else s)"

definition disconnect :: "state \<Rightarrow> state" where
  "disconnect s =
     (let s1 = s\<lparr>shouldReconnect := False\<rparr>;
          s2 = (case reconnectTimer s1 of
                  None \<Rightarrow> s1
                | Some i \<Rightarrow> (clearTimeout i s1)\<lparr>reconnectTimer := None\<rparr>);
          s3 = clearHeartbeat s2
      in case websocket s3 of
           None \<Rightarrow> s3
         | Some i \<Rightarrow> (socket_close i s3)\<lparr>websocket := None\<rparr>)"

text \<open>
  \<^verbatim>\<open>connect\<close> up to its \<^verbatim>\<open>await\<close>: the guard, the notice, the new socket with its
  listeners. What follows the await is \<open>on_open\<close> and \<open>on_error\<close> below.
\<close>

definition connect :: "state \<Rightarrow> state" where
  "connect s =
     (if isConnecting s \<or> open_socket s \<noteq> None then s
      else
        (let s1 = emit Reconnecting (s\<lparr>isConnecting := True\<rparr>);
             i = length (sockets s1);
             s2 = s1\<lparr>sockets := sockets s1 @
                       [\<lparr>readyState = CONNECTING, connect_pending = True, error_once = True\<rparr>],
                     websocket := Some i\<rparr>
         in record_effect (NewSocket i) s2))"

text \<open>
  \<^verbatim>\<open>handleMessage\<close>. The \<^verbatim>\<open>switch\<close> compares with \<^verbatim>\<open>===\<close>, so only the
  number matches a case. In case 129 the key must be a string for the cipher to take it;
  the throw comes before \<^verbatim>\<open>send\<close> is called.
\<close>

definition is_push :: "WebSocketMessage \<Rightarrow> bool" where
  "is_push message =
     (case js_get_opt (m_data message) ''type'' of
        Inr (Some (JStr t)) \<Rightarrow> t = ''PUSH_SIXINTONG_MSG''
      | _ \<Rightarrow> False)"

definition client_info :: "WebSocketClientConfig \<Rightarrow> json" where
  "client_info cfg =
     JObj [(''userAgent'', JObj [(''appName'', JStr (appName cfg)),
                                 (''appVersion'', JStr (appVersion cfg))]),
           (''additionalInfo'', JObj [(''userId'', JStr (userId cfg)),
                                      (''sellerId'', JStr (sellerId cfg))])]"

definition handleMessage ::
  "(byte list \<Rightarrow> byte list \<Rightarrow> byte list) \<Rightarrow> WebSocketMessage \<Rightarrow> state \<Rightarrow> (error + unit) \<times> state" where
  "handleMessage aes message s =
     (case m_type message of
        Some (JNum n) \<Rightarrow>
          (if n = 2 then
             (case send (empty_message\<lparr>m_type := Some (JNum 130), m_ack := m_seq message\<rparr>) s of
                (Inl e, s1) \<Rightarrow> (Inl e, s1)
              | (Inr u, s1) \<Rightarrow>
                  (if is_push message then (Inr (), emit (RawMessage message) s1)
                   else (Inr (), s1)))
           else if n = 4 then send (empty_message\<lparr>m_type := Some (JNum 132)\<rparr>) s
           else if n = 129 then
             (case m_secureKey message of
                Some (JStr k) \<Rightarrow>
                  send (empty_message\<lparr>m_type := Some (JNum 10),
                          m_topic := Some (JStr (aesEcbEncrypt aes k (userId (config s)))),
                          m_encrypt := Some (JBool True)\<rparr>) s
              | _ \<Rightarrow> (Inl TypeError, s))
           else if n = 132 then (Inr (), startHeartbeat 60000 s)
           else if n = 138 then
             send (empty_message\<lparr>m_type := Some (JNum 12),
                     m_data := Some (client_info (config s))\<rparr>) s
           else if n = 140 then (Inr (), startHeartbeat 30000 s)
           else (Inr (), s))
      | _ \<Rightarrow> (Inr (), s))"

subsection \<open>The listeners\<close>

definition update_socket :: "nat \<Rightarrow> (socket \<Rightarrow> socket) \<Rightarrow> state \<Rightarrow> state" where
  "update_socket i f s = s\<lparr>sockets := (sockets s)[i := f (sockets s ! i)]\<rparr>"

text \<open>
  The \<^verbatim>\<open>message\<close> listener: a frame that does not parse is logged and dropped. The
  promise of \<^verbatim>\<open>handleMessage\<close> is not awaited, so a throw inside it goes nowhere.
\<close>

definition on_message :: "(byte list \<Rightarrow> byte list \<Rightarrow> byte list) \<Rightarrow> string \<Rightarrow> state \<Rightarrow> state" where
  "on_message aes frame s =
     (case JSON_parse frame of
        None \<Rightarrow> s
      | Some v \<Rightarrow>
          (case fromJSON v of
             None \<Rightarrow> s
           | Some message \<Rightarrow> snd (handleMessage aes message s)))"

text \<open>
  The \<^verbatim>\<open>once('open')\<close> listener of \<^verbatim>\<open>connect\<close>, on socket \<open>i\<close>, which resolves
  the promise; the promise of \<^verbatim>\<open>sendAuthMessage\<close> is not awaited.
\<close>

definition on_open :: "nat \<Rightarrow> state \<Rightarrow> state" where
  "on_open i s =
     (let s1 = emit Connected (s\<lparr>isConnecting := False\<rparr>);
          s2 = snd (sendAuthMessage s1)
      in update_socket i (\<lambda>k. k\<lparr>connect_pending := False\<rparr>) s2)"

text \<open>
  An \<^verbatim>\<open>error\<close> on socket \<open>i\<close>: first the listener of \<^verbatim>\<open>setupEventHandlers\<close>, then, if
  still attached, the \<^verbatim>\<open>once('error')\<close> listener of \<^verbatim>\<open>connect\<close>; when that one
  rejects a promise still unsettled, the \<^verbatim>\<open>catch\<close> block of \<^verbatim>\<open>connect\<close> runs.
\<close>

definition connect_catch :: "state \<Rightarrow> state" where
  "connect_catch s =
     (let s1 = emit ErrorEvent (s\<lparr>isConnecting := False\<rparr>)
      in if shouldReconnect s1 then scheduleReconnect s1 else s1)"

definition on_error :: "nat \<Rightarrow> state \<Rightarrow> state" where
  "on_error i s =
     (let s1 = emit ErrorEvent s in
      if error_once (sockets s1 ! i) then
        (let s2 = update_socket i (\<lambda>k. k\<lparr>error_once := False\<rparr>) (s1\<lparr>isConnecting := False\<rparr>)
         in if connect_pending (sockets s2 ! i)
            then connect_catch (update_socket i (\<lambda>k. k\<lparr>connect_pending := False\<rparr>) s2)
            else s2)
      else s1)"

definition on_close :: "state \<Rightarrow> state" where
  "on_close s =
     (let s1 = cleanup (emit Disconnected s)
      in if shouldReconnect s1 then scheduleReconnect s1 else s1)"

text \<open>The callback of the reconnect timer.\<close>

definition reconnect_callback :: "state \<Rightarrow> state" where
  "reconnect_callback s = connect (s\<lparr>reconnectTimer := None\<rparr>)"

subsection \<open>The runtime\<close>

text \<open>
  What can happen to the client: its two public methods are called, a socket it created
  opens, fails, closes or delivers a frame, a pending timer fires, time passes. \<open>step\<close>
  is \<open>None\<close> when the input cannot happen in the state: a socket opens only while
  connecting and delivers frames only once open and until closed, a closed socket is
  silent, and a timer fires only when it is pending and its time has come.
\<close>

datatype input =
    CallConnect
  | CallDisconnect
  | SocketOpens nat
  | SocketErrors nat
  | SocketCloses nat
  | SocketMessage nat string
  | TimerFires nat
  | TimePasses nat

definition fire_timer :: "nat \<Rightarrow> state \<Rightarrow> state option" where
  "fire_timer i s =
     (case find (\<lambda>t. timer_id t = i) (timers s) of
        None \<Rightarrow> None
      | Some t \<Rightarrow>
          (if now s < due t then None
           else
             (let s1 = s\<lparr>timers := filter (\<lambda>t. timer_id t \<noteq> i) (timers s)\<rparr>
              in Some (case kind t of
                         HeartbeatTimer \<Rightarrow> heartbeat_callback s1
                       | ReconnectTimer \<Rightarrow> reconnect_callback s1))))"

fun step :: "(byte list \<Rightarrow> byte list \<Rightarrow> byte list) \<Rightarrow> input \<Rightarrow> state \<Rightarrow> state option" where
  "step aes CallConnect s = Some (connect s)"
| "step aes CallDisconnect s = Some (disconnect s)"
| "step aes (SocketOpens i) s =
     (if i < length (sockets s) \<and> readyState (sockets s ! i) = CONNECTING
      then Some (on_open i (update_socket i (\<lambda>k. k\<lparr>readyState := OPEN\<rparr>) s))
      else None)"
| "step aes (SocketErrors i) s =
     (if i < length (sockets s) \<and> readyState (sockets s ! i) \<noteq> CLOSED
      then Some (on_error i (update_socket i (\<lambda>k. k\<lparr>readyState := CLOSING\<rparr>) s))
      else None)"
| "step aes (SocketCloses i) s =
     (if i < length (sockets s) \<and> readyState (sockets s ! i) \<noteq> CLOSED
      then Some (on_close (update_socket i (\<lambda>k. k\<lparr>readyState := CLOSED\<rparr>) s))
      else None)"
| "step aes (SocketMessage i frame) s =
     (if i < length (sockets s) \<and>
         (readyState (sockets s ! i) = OPEN \<or> readyState (sockets s ! i) = CLOSING)
      then Some (on_message aes frame s)
      else None)"
| "step aes (TimerFires i) s = fire_timer i s"
| "step aes (TimePasses d) s = Some (s\<lparr>now := now s + d\<rparr>)"

fun run :: "(byte list \<Rightarrow> byte list \<Rightarrow> byte list) \<Rightarrow> input list \<Rightarrow> state \<Rightarrow> state option" where
  "run aes [] s = Some s"
| "run aes (x # xs) s = (case step aes x s of None \<Rightarrow> None | Some s1 \<Rightarrow> run aes xs s1)"

section \<open>Notions used in the statements\<close>



text \<open>An emoticon whose name is truthy.\<close>

fun named_emoticon :: "MessageSegment \<Rightarrow> bool" where
  "named_emoticon (Emoticon i n u) = js_truthy n"
| "named_emoticon seg = False"

text \<open>The frames handed to sockets and the sockets created, read off a trace in order.\<close>

fun sent_frames :: "(nat \<times> effect) list \<Rightarrow> string list" where
  "sent_frames [] = []"
| "sent_frames ((t, SocketSend i frame) # es) = frame # sent_frames es"
| "sent_frames (e # es) = sent_frames es"

fun created_at :: "(nat \<times> effect) list \<Rightarrow> nat list" where
  "created_at [] = []"
| "created_at ((t, NewSocket i) # es) = t # created_at es"
| "created_at (e # es) = created_at es"

definition hb_timers :: "state \<Rightarrow> timer list" where
  "hb_timers s = filter (\<lambda>t. kind t = HeartbeatTimer) (timers s)"

definition rc_timers :: "state \<Rightarrow> timer list" where
  "rc_timers s = filter (\<lambda>t. kind t = ReconnectTimer) (timers s)"

text \<open>
  What holds of the timers in every state the client reaches: identifiers are handed
  out once, and a pending timer is the one its handle in the client names.
\<close>

definition timers_ok :: "state \<Rightarrow> bool" where
  "timers_ok s =
     (distinct (map timer_id (timers s)) \<and>
      list_all (\<lambda>t. timer_id t < next_timer s) (timers s) \<and>
      list_all (\<lambda>t. heartbeatTimer s = Some (timer_id t)) (hb_timers s) \<and>
      list_all (\<lambda>t. reconnectTimer s = Some (timer_id t)) (rc_timers s))"

text \<open>The inputs that are not a call of \<^verbatim>\<open>connect\<close> by the user.\<close>

fun automatic :: "input \<Rightarrow> bool" where
  "automatic CallConnect = False"
| "automatic x = True"

fun is_close :: "input \<Rightarrow> bool" where
  "is_close (SocketCloses i) = True"
| "is_close x = False"

text \<open>
  For the round trip of the text: \<open>not_num_cont rest\<close> says that \<open>rest\<close> cannot
  continue a number, \<open>delim rest\<close> that it is empty or starts with a comma or a closing
  bracket or brace; \<open>item_of c\<close> is the item that the escape of \<open>c\<close> parses to;
  \<open>integral v\<close> says that no number in \<open>v\<close> has a fractional part.
\<close>

definition not_num_cont :: "string \<Rightarrow> bool" where
  "not_num_cont rest =
     (case rest of
        [] \<Rightarrow> True
      | c # _ \<Rightarrow> \<not> is_digit c \<and> c \<noteq> CHR ''.'' \<and> c \<noteq> CHR ''e'' \<and> c \<noteq> CHR ''E'')"

definition delim :: "string \<Rightarrow> bool" where
  "delim rest =
     (case rest of [] \<Rightarrow> True | c # _ \<Rightarrow> c = CHR '','' \<or> c = CHR '']'' \<or> c = CHR ''}'')"

definition item_of :: "char \<Rightarrow> str_item" where
  "item_of c =
     (if (of_char c :: nat) < 0x20 \<and> c \<noteq> CHR 0x08 \<and> c \<noteq> CHR 0x0C \<and> c \<noteq> CHR 0x0A \<and>
         c \<noteq> CHR 0x0D \<and> c \<noteq> CHR 0x09
      then Esc (of_char c) else Raw c)"

fun integral :: "json \<Rightarrow> bool" where
  "integral (JFrac m k) = False"
| "integral (JArr xs) = list_all integral xs"
| "integral (JObj kvs) = list_all (\<lambda>kv. integral (snd kv)) kvs"
| "integral v = True"

text \<open>
  A well-formed envelope, after the schema of types.ts: a numeric type; sequence and
  acknowledgement numbers; token, application identifier, topic and secure key strings;
  a boolean encrypt flag; any data. Its numbers are integral, as all codes and counters
  of the protocol are.
\<close>

fun is_num :: "json \<Rightarrow> bool" where
  "is_num (JNum n) = True"
| "is_num v = False"

fun is_str :: "json \<Rightarrow> bool" where
  "is_str (JStr x) = True"
| "is_str v = False"

fun is_bool :: "json \<Rightarrow> bool" where
  "is_bool (JBool b) = True"
| "is_bool v = False"

fun has_type :: "(json \<Rightarrow> bool) \<Rightarrow> jsval \<Rightarrow> bool" where
  "has_type P None = True"
| "has_type P (Some v) = (P v \<and> integral v)"

definition wf_message :: "WebSocketMessage \<Rightarrow> bool" where
  "wf_message m =
     (is_number (m_type m) \<and> has_type is_num (m_type m) \<and> has_type is_num (m_seq m) \<and>
      has_type is_num (m_ack m) \<and> has_type is_str (m_token m) \<and> has_type is_str (m_appId m) \<and>
      has_type is_str (m_topic m) \<and> has_type is_bool (m_encrypt m) \<and>
      has_type is_str (m_secureKey m) \<and> has_type (\<lambda>v. True) (m_data m))"

text \<open>The state after \<^verbatim>\<open>connect\<close> on a new client and the opening of its socket.\<close>

definition connected_state :: "WebSocketClientConfig \<Rightarrow> state" where
  "connected_state cfg = on_open 0 (update_socket 0 (\<lambda>k. k\<lparr>readyState := OPEN\<rparr>) (connect (init cfg)))"

section \<open>The round trip of the JSON text\<close>


lemma of_char_digit_char: "d < 10 \<Longrightarrow> (of_char (digit_char d) :: nat) = 48 + d"
  by (simp add: digit_char_def)

lemma is_digit_digit_char: "d < 10 \<Longrightarrow> is_digit (digit_char d)"
  by (simp add: is_digit_def of_char_digit_char)

lemma digit_val_digit_char: "d < 10 \<Longrightarrow> digit_val (digit_char d) = d"
  by (simp add: digit_val_def of_char_digit_char)

lemma nat_to_string_digits: "list_all is_digit (nat_to_string n)"
proof (induction n rule: nat_to_string.induct)
  case (1 n)
  show ?case
  proof (cases "n < 10")
    case True
    then show ?thesis by (subst nat_to_string.simps) (simp add: is_digit_digit_char)
  next
    case False
    with 1 show ?thesis by (subst nat_to_string.simps) (simp add: is_digit_digit_char)
  qed
qed

lemma nat_to_string_nonempty: "nat_to_string n \<noteq> []"
  by (subst nat_to_string.simps) simp

lemma digits_to_nat_snoc: "digits_to_nat (ds @ [c]) = 10 * digits_to_nat ds + digit_val c"
  by (simp add: digits_to_nat_def)

lemma digits_to_nat_nat_to_string: "digits_to_nat (nat_to_string n) = n"
proof (induction n rule: nat_to_string.induct)
  case (1 n)
  show ?case
  proof (cases "n < 10")
    case True
    then show ?thesis
      by (subst nat_to_string.simps) (simp add: digits_to_nat_def digit_val_digit_char)
  next
    case False
    with 1 show ?thesis
      by (subst nat_to_string.simps) (simp add: digits_to_nat_snoc digit_val_digit_char)
  qed
qed

lemma hd_nat_to_string: "0 < n \<Longrightarrow> hd (nat_to_string n) \<noteq> CHR ''0''"
proof (induction n rule: nat_to_string.induct)
  case (1 n)
  show ?case
  proof (cases "n < 10")
    case True
    have "digit_char n \<noteq> CHR ''0''"
    proof
      assume "digit_char n = CHR ''0''"
      then have "(of_char (digit_char n) :: nat) = of_char (CHR ''0'')" by simp
      with True \<open>0 < n\<close> show False by (simp add: of_char_digit_char)
    qed
    with True show ?thesis by (subst nat_to_string.simps) simp
  next
    case False
    then have "0 < n div 10" by simp
    with 1 False have "hd (nat_to_string (n div 10)) \<noteq> CHR ''0''" by simp
    with False show ?thesis
      by (subst nat_to_string.simps) (simp add: nat_to_string_nonempty)
  qed
qed

lemma nat_to_string_0: "nat_to_string 0 = ''0''"
  by code_simp

lemma takeWhile_digits:
  "list_all is_digit ds \<Longrightarrow> not_num_cont rest \<Longrightarrow> takeWhile is_digit (ds @ rest) = ds"
  by (induction ds) (auto simp: not_num_cont_def split: list.splits)

lemma dropWhile_digits:
  "list_all is_digit ds \<Longrightarrow> not_num_cont rest \<Longrightarrow> dropWhile is_digit (ds @ rest) = rest"
  by (induction ds) (auto simp: not_num_cont_def split: list.splits)

lemma parse_int_part_nat:
  assumes "not_num_cont rest"
  shows "parse_int_part (nat_to_string n @ rest) = Some (nat_to_string n, rest)"
proof (cases "n = 0")
  case True
  then show ?thesis by (simp add: nat_to_string_0 parse_int_part_def)
next
  case False
  obtain c cs where cs: "nat_to_string n = c # cs"
    using nat_to_string_nonempty [of n] by (cases "nat_to_string n") auto
  have c0: "c \<noteq> CHR ''0''" using hd_nat_to_string [of n] False cs by simp
  have dg: "list_all is_digit (c # cs)" using nat_to_string_digits [of n] cs by simp
  then have "is_digit c" by simp
  moreover have "takeWhile is_digit ((c # cs) @ rest) = c # cs"
    using takeWhile_digits [OF dg assms] .
  moreover have "dropWhile is_digit ((c # cs) @ rest) = rest"
    using dropWhile_digits [OF dg assms] .
  ultimately show ?thesis using c0 cs by (simp add: parse_int_part_def)
qed

lemma parse_frac_exp_none:
  "not_num_cont rest \<Longrightarrow> parse_frac_part rest = Some ([], rest) \<and> parse_exp_part rest = Some (0, rest)"
  by (auto simp: not_num_cont_def parse_frac_part_def parse_exp_part_def split: list.splits)

lemma nat_to_string_no_minus: "hd (nat_to_string n) \<noteq> CHR ''-''"
proof -
  obtain c cs where cs: "nat_to_string n = c # cs"
    using nat_to_string_nonempty [of n] by (cases "nat_to_string n") auto
  have "is_digit c" using nat_to_string_digits [of n] cs by simp
  then have "c \<noteq> CHR ''-''" by (auto simp: is_digit_def)
  with cs show ?thesis by simp
qed

lemma parse_number_nat:
  assumes "not_num_cont rest"
  shows "parse_number (nat_to_string k @ rest) = Done (JNum (int k)) rest"
proof -
  obtain c cs where cs: "nat_to_string k = c # cs"
    using nat_to_string_nonempty [of k] by (cases "nat_to_string k") auto
  have nm: "c \<noteq> CHR ''-''" using nat_to_string_no_minus [of k] cs by simp
  have ip: "parse_int_part (c # cs @ rest) = Some (nat_to_string k, rest)"
    using parse_int_part_nat [OF assms, of k] cs by simp
  show ?thesis
    unfolding cs using nm ip parse_frac_exp_none [OF assms]
    by (simp add: parse_number_def make_number_def digits_to_nat_nat_to_string)
qed

lemma parse_number_neg:
  assumes "not_num_cont rest"
  shows "parse_number (CHR ''-'' # nat_to_string k @ rest) = Done (JNum (- int k)) rest"
  using parse_int_part_nat [OF assms, of k] parse_frac_exp_none [OF assms]
  by (simp add: parse_number_def make_number_def digits_to_nat_nat_to_string)

lemma parse_number_int:
  assumes "not_num_cont rest"
  shows "parse_number (int_to_string n @ rest) = Done (JNum n) rest"
proof (cases "n < 0")
  case True
  then show ?thesis
    using parse_number_neg [OF assms, of "nat (- n)"] by (simp add: int_to_string_def)
next
  case False
  then show ?thesis
    using parse_number_nat [OF assms, of "nat n"] by (simp add: int_to_string_def)
qed


lemma of_char_char_of_small: "k < 256 \<Longrightarrow> (of_char (char_of k) :: nat) = k"
  by simp

lemma hex_val_hex_digit: "d < 16 \<Longrightarrow> hex_val (hex_digit d) = Some d"
  by (auto simp: hex_val_def hex_digit_def Let_def)

lemma hex4_control:
  "n < 256 \<Longrightarrow> hex4 (CHR ''0'') (CHR ''0'') (hex_digit (n div 16)) (hex_digit (n mod 16)) = Some n"
proof -
  assume n: "n < 256"
  have z: "hex_val (CHR ''0'') = Some 0" by (simp add: hex_val_def)
  have a: "hex_val (hex_digit (n div 16)) = Some (n div 16)"
    using n by (intro hex_val_hex_digit) simp
  have b: "hex_val (hex_digit (n mod 16)) = Some (n mod 16)"
    by (intro hex_val_hex_digit) simp
  show ?thesis by (simp add: hex4_def z a b)
qed

lemma parse_chars_escape_char:
  "parse_chars (escape_char c @ cs) =
     (case parse_chars cs of Done items rest \<Rightarrow> Done (item_of c # items) rest | r \<Rightarrow> r)"
proof -
  have n: "(of_char c :: nat) < 256" by simp
  consider "c = CHR 0x22" | "c = CHR 0x5C" | "c = CHR 0x08" | "c = CHR 0x0C" | "c = CHR 0x0A"
    | "c = CHR 0x0D" | "c = CHR 0x09"
    | "c \<noteq> CHR 0x22" "c \<noteq> CHR 0x5C" "c \<noteq> CHR 0x08" "c \<noteq> CHR 0x0C" "c \<noteq> CHR 0x0A"
      "c \<noteq> CHR 0x0D" "c \<noteq> CHR 0x09" "(of_char c :: nat) < 0x20"
    | "c \<noteq> CHR 0x22" "c \<noteq> CHR 0x5C" "\<not> (of_char c :: nat) < 0x20"
    by blast
  then show ?thesis
  proof cases
    case 8
    then show ?thesis
      using hex4_control [OF n]
      by (simp add: escape_char_def item_of_def split: presult.splits)
  next
    case 9
    then have "c \<noteq> CHR 0x08" "c \<noteq> CHR 0x0C" "c \<noteq> CHR 0x0A" "c \<noteq> CHR 0x0D" "c \<noteq> CHR 0x09"
      by auto
    with 9 show ?thesis
      by (simp add: escape_char_def item_of_def split: presult.splits)
  qed (simp_all add: escape_char_def item_of_def split: presult.splits)
qed

lemma parse_chars_quote:
  "parse_chars (concat (map escape_char s) @ CHR 0x22 # rest) = Done (map item_of s) rest"
  by (induction s) (simp_all add: parse_chars_escape_char)

lemma utf8_encode_small: "cu < 0x80 \<Longrightarrow> utf8_encode cu = [char_of cu]"
  by (simp add: utf8_encode_def)

lemma decode_items_Esc_small:
  "cu < 0x80 \<Longrightarrow> decode_items (Esc cu # xs) = char_of cu # decode_items xs"
proof (cases xs)
  case Nil
  assume "cu < 0x80" then show ?thesis using Nil by (simp add: utf8_encode_small)
next
  case (Cons x xs')
  assume "cu < 0x80" then show ?thesis using Cons by (cases x) (simp_all add: utf8_encode_small)
qed

lemma decode_items_item_of: "decode_items (map item_of s) = s"
proof (induction s)
  case Nil
  show ?case by simp
next
  case (Cons c s)
  show ?case
  proof (cases "item_of c")
    case (Raw x)
    then have "x = c" by (auto simp: item_of_def split: if_splits)
    with Raw Cons show ?thesis by simp
  next
    case (Esc cu)
    then have cu: "cu = of_char c" "cu < 0x80" by (auto simp: item_of_def split: if_splits)
    with Esc Cons show ?thesis by (simp add: decode_items_Esc_small)
  qed
qed

lemma parse_string_quote:
  "parse_string (concat (map escape_char s) @ CHR 0x22 # rest) = Done s rest"
  by (simp add: parse_string_def parse_chars_quote decode_items_item_of)


lemma delim_not_num_cont: "delim rest \<Longrightarrow> not_num_cont rest"
  by (auto simp: delim_def not_num_cont_def is_digit_def split: list.splits)

lemma skip_ws_nonws: "\<not> is_ws c \<Longrightarrow> skip_ws (c # cs) = c # cs"
  by (simp add: skip_ws_def)

lemma JSON_stringify_nonempty: "JSON_stringify j \<noteq> []"
  by (cases j) (auto simp: int_to_string_def nat_to_string_nonempty frac_to_string_def quote_def Let_def)

lemma parse_value_null: "parse_value (Suc n) (''null'' @ rest) = Done JNull rest"
  by (simp add: skip_ws_def is_ws_def parse_literal_def)

lemma parse_value_bool:
  "parse_value (Suc n) ((if b then ''true'' else ''false'') @ rest) = Done (JBool b) rest"
  by (simp add: skip_ws_def is_ws_def parse_literal_def)

lemma parse_value_str: "parse_value (Suc n) (quote s @ rest) = Done (JStr s) rest"
  by (simp add: quote_def skip_ws_def is_ws_def parse_string_quote)

lemma parse_value_num:
  assumes "not_num_cont rest"
  shows "parse_value (Suc n) (int_to_string i @ rest) = Done (JNum i) rest"
proof -
  obtain c cs where cs: "int_to_string i = c # cs"
    using nat_to_string_nonempty by (cases "int_to_string i") (auto simp: int_to_string_def split: if_splits)
  have d: "c = CHR ''-'' \<or> is_digit c"
  proof (cases "i < 0")
    case True
    with cs show ?thesis by (simp add: int_to_string_def)
  next
    case False
    with cs have "nat_to_string (nat i) = c # cs" by (simp add: int_to_string_def)
    then show ?thesis using nat_to_string_digits [of "nat i"] by simp
  qed
  then have nw: "\<not> is_ws c" and ne: "c \<noteq> CHR ''n''" "c \<noteq> CHR ''t''" "c \<noteq> CHR ''f''"
    "c \<noteq> CHR 0x22" "c \<noteq> CHR ''[''" "c \<noteq> CHR ''{''"
    by (auto simp: is_ws_def is_digit_def)
  have "parse_number (c # cs @ rest) = Done (JNum i) rest"
    using parse_number_int [OF assms, of i] cs by simp
  then show ?thesis
    unfolding cs using d nw ne by (simp add: skip_ws_nonws)
qed


lemma JSON_stringify_hd:
  "\<exists>c cs. JSON_stringify j = c # cs \<and> \<not> is_ws c \<and> c \<noteq> CHR '']'' \<and> c \<noteq> CHR ''}''"
proof (cases j)
  case (JNum i)
  obtain c cs where cs: "int_to_string i = c # cs"
    using nat_to_string_nonempty by (cases "int_to_string i") (auto simp: int_to_string_def split: if_splits)
  have "c = CHR ''-'' \<or> is_digit c"
  proof (cases "i < 0")
    case True
    with cs show ?thesis by (simp add: int_to_string_def)
  next
    case False
    with cs have "nat_to_string (nat i) = c # cs" by (simp add: int_to_string_def)
    then show ?thesis using nat_to_string_digits [of "nat i"] by simp
  qed
  then show ?thesis using JNum cs by (auto simp: is_ws_def is_digit_def)
next
  case (JFrac m k)
  obtain c cs where cs: "nat_to_string (nat \<bar>m\<bar> div 10 ^ k) = c # cs"
    using nat_to_string_nonempty by (cases "nat_to_string (nat \<bar>m\<bar> div 10 ^ k)") auto
  then have "is_digit c" using nat_to_string_digits [of "nat \<bar>m\<bar> div 10 ^ k"] by simp
  then show ?thesis using JFrac cs
    by (auto simp: frac_to_string_def Let_def is_ws_def is_digit_def)
qed (auto simp: is_ws_def quote_def)

lemma parse_elements_join:
  assumes IH: "\<And>x n rest. x \<in> set xs \<Longrightarrow> length (JSON_stringify x) \<le> n \<Longrightarrow> delim rest \<Longrightarrow>
                 parse_value n (JSON_stringify x @ rest) = Done x rest"
  shows "xs \<noteq> [] \<Longrightarrow> length (join_with '','' (map JSON_stringify xs)) < n \<Longrightarrow>
         parse_elements n (join_with '','' (map JSON_stringify xs) @ CHR '']'' # rest) = Done xs rest"
  using IH
proof (induction xs arbitrary: n)
  case Nil
  then show ?case by simp
next
  case (Cons x xs)
  obtain n' where n: "n = Suc n'" using Cons.prems(2) by (cases n) auto
  show ?case
  proof (cases xs)
    case Nil
    have "parse_value n' (JSON_stringify x @ CHR '']'' # rest) = Done x (CHR '']'' # rest)"
      using Cons.prems(2) n Nil by (intro Cons.prems(3)) (auto simp: delim_def)
    then show ?thesis using Nil n by (simp add: skip_ws_def is_ws_def)
  next
    case (Cons y ys)
    let ?tail = "join_with '','' (map JSON_stringify (y # ys))"
    have len: "length (JSON_stringify x) + 1 + length ?tail < Suc n'"
      using Cons.prems(2) n Cons by simp
    have pv: "parse_value n' (JSON_stringify x @ CHR '','' # ?tail @ CHR '']'' # rest)
                = Done x (CHR '','' # ?tail @ CHR '']'' # rest)"
      using len by (intro Cons.prems(3)) (auto simp: delim_def)
    have pe: "parse_elements n' (?tail @ CHR '']'' # rest) = Done (y # ys) rest"
      using len Cons Cons.prems(3) by (intro Cons.IH [unfolded Cons]) auto
    show ?thesis using Cons n pv pe by (simp add: skip_ws_def is_ws_def)
  qed
qed


lemma parse_members_join:
  assumes IH: "\<And>kv n rest. kv \<in> set kvs \<Longrightarrow> length (JSON_stringify (snd kv)) \<le> n \<Longrightarrow> delim rest \<Longrightarrow>
                 parse_value n (JSON_stringify (snd kv) @ rest) = Done (snd kv) rest"
  shows "kvs \<noteq> [] \<Longrightarrow> length (join_with '','' (map (\<lambda>kv. quote (fst kv) @ '':'' @ JSON_stringify (snd kv)) kvs)) < n \<Longrightarrow>
         parse_members n (join_with '','' (map (\<lambda>kv. quote (fst kv) @ '':'' @ JSON_stringify (snd kv)) kvs) @ CHR ''}'' # rest) = Done kvs rest"
  using IH
proof (induction kvs arbitrary: n)
  case Nil
  then show ?case by simp
next
  case (Cons kv kvs)
  obtain n' where n: "n = Suc n'" using Cons.prems(2) by (cases n) auto
  obtain k v where kv: "kv = (k, v)" by (cases kv)
  have key: "\<And>tl. parse_members (Suc n') ((quote (fst kv) @ '':'' @ JSON_stringify (snd kv)) @ tl) =
      (case parse_value n' (JSON_stringify v @ tl) of
         Fail \<Rightarrow> Fail | Stuck \<Rightarrow> Stuck
       | Done v' r3 \<Rightarrow>
           (case skip_ws r3 of [] \<Rightarrow> Fail
            | s # r4 \<Rightarrow>
               (if s = CHR '','' then
                  (case parse_members n' r4 of
                     Done kvs' rest' \<Rightarrow> Done ((k, v') # kvs') rest'
                   | Fail \<Rightarrow> Fail | Stuck \<Rightarrow> Stuck)
                else if s = CHR ''}'' then Done [(k, v')] r4 else Fail)))"
    by (simp add: kv quote_def skip_ws_def is_ws_def parse_string_quote)
  show ?case
  proof (cases kvs)
    case Nil
    have "parse_value n' (JSON_stringify v @ CHR ''}'' # rest) = Done v (CHR ''}'' # rest)"
      using Cons.prems(2) n Nil Cons.prems(3) [of kv n' "CHR ''}'' # rest"] kv
      by (auto simp: delim_def)
    then show ?thesis using Nil n key [of "CHR ''}'' # rest"] kv
      by (simp add: skip_ws_def is_ws_def)
  next
    case (Cons kv2 kvs2)
    let ?tail = "join_with '','' (map (\<lambda>kv. quote (fst kv) @ '':'' @ JSON_stringify (snd kv)) (kv2 # kvs2))"
    have len: "length (quote (fst kv) @ '':'' @ JSON_stringify (snd kv)) + 1 + length ?tail < Suc n'"
      using Cons.prems(2) n Cons by simp
    have pv: "parse_value n' (JSON_stringify v @ CHR '','' # ?tail @ CHR ''}'' # rest)
                = Done v (CHR '','' # ?tail @ CHR ''}'' # rest)"
      using len Cons.prems(3) [of kv n' "CHR '','' # ?tail @ CHR ''}'' # rest"] kv
      by (auto simp: delim_def)
    have pe: "parse_members n' (?tail @ CHR ''}'' # rest) = Done (kv2 # kvs2) rest"
      using len Cons Cons.prems(3) by (intro Cons.IH [unfolded Cons]) auto
    show ?thesis using Cons n pv pe key [of "CHR '','' # ?tail @ CHR ''}'' # rest"] kv
      by (simp add: skip_ws_def is_ws_def)
  qed
qed

lemma parse_value_stringify:
  "integral j \<Longrightarrow> length (JSON_stringify j) \<le> n \<Longrightarrow> delim rest \<Longrightarrow>
   parse_value n (JSON_stringify j @ rest) = Done j rest"
proof (induction j arbitrary: n rest)
  case JNull
  then show ?case using parse_value_null by (cases n) auto
next
  case (JBool b)
  then show ?case using parse_value_bool [of _ b rest] by (cases n) (auto split: if_splits)
next
  case (JNum i)
  have "n \<noteq> 0" using JNum.prems(2) JSON_stringify_nonempty [of "JNum i"]
    by (cases "int_to_string i") auto
  then obtain n' where "n = Suc n'" by (cases n) auto
  then show ?case using parse_value_num [OF delim_not_num_cont [OF JNum.prems(3)]] by simp
next
  case (JFrac m k)
  then show ?case by simp
next
  case (JStr s)
  have "n \<noteq> 0" using JStr.prems(2) by (auto simp: quote_def)
  then obtain n' where "n = Suc n'" by (cases n) auto
  then show ?case using parse_value_str by simp
next
  case (JArr xs)
  obtain n' where n: "n = Suc n'" using JArr.prems(2) by (cases n) auto
  show ?case
  proof (cases xs)
    case Nil
    then show ?thesis using n by (simp add: skip_ws_def is_ws_def)
  next
    case (Cons x xs')
    let ?body = "join_with '','' (map JSON_stringify xs)"
    obtain c cs where hd: "JSON_stringify x = c # cs" "\<not> is_ws c" "c \<noteq> CHR '']''"
      using JSON_stringify_hd [of x] by auto
    have body: "?body @ CHR '']'' # rest = c # (tl ?body @ CHR '']'' # rest)"
      using Cons hd by (cases xs') simp_all
    have IH: "\<And>x n rest. x \<in> set xs \<Longrightarrow> length (JSON_stringify x) \<le> n \<Longrightarrow> delim rest \<Longrightarrow>
                 parse_value n (JSON_stringify x @ rest) = Done x rest"
      using JArr.IH JArr.prems(1) by (auto simp: list_all_iff)
    have pe: "parse_elements n' (?body @ CHR '']'' # rest) = Done xs rest"
      using JArr.prems(2) n Cons by (intro parse_elements_join [OF IH]) auto
    have "parse_value (Suc n') (CHR ''['' # ?body @ CHR '']'' # rest) = Done (JArr xs) rest"
      using pe hd unfolding body
      by (simp add: skip_ws_def is_ws_def)
    then show ?thesis using n by simp
  qed
next
  case (JObj kvs)
  obtain n' where n: "n = Suc n'" using JObj.prems(2) by (cases n) auto
  show ?case
  proof (cases kvs)
    case Nil
    then show ?thesis using n by (simp add: skip_ws_def is_ws_def)
  next
    case (Cons kv kvs')
    let ?body = "join_with '','' (map (\<lambda>kv. quote (fst kv) @ '':'' @ JSON_stringify (snd kv)) kvs)"
    have body: "?body @ CHR ''}'' # rest = CHR 0x22 # (tl ?body @ CHR ''}'' # rest)"
      using Cons by (cases kvs') (simp_all add: quote_def)
    have IH: "\<And>kv n rest. kv \<in> set kvs \<Longrightarrow> length (JSON_stringify (snd kv)) \<le> n \<Longrightarrow> delim rest \<Longrightarrow>
                 parse_value n (JSON_stringify (snd kv) @ rest) = Done (snd kv) rest"
    proof -
      fix kv n rest
      assume a: "kv \<in> set kvs" "length (JSON_stringify (snd kv)) \<le> n" "delim rest"
      have "snd kv \<in> Basic_BNFs.snds kv" by (cases kv) simp
      moreover have "integral (snd kv)" using JObj.prems(1) a(1) by (auto simp: list_all_iff)
      ultimately show "parse_value n (JSON_stringify (snd kv) @ rest) = Done (snd kv) rest"
        using JObj.IH a by blast
    qed
    have pe: "parse_members n' (?body @ CHR ''}'' # rest) = Done kvs rest"
      using JObj.prems(2) n Cons by (intro parse_members_join [OF IH]) auto
    have "parse_value (Suc n') (CHR ''{'' # ?body @ CHR ''}'' # rest) = Done (JObj kvs) rest"
      using pe unfolding body
      by (simp add: skip_ws_def is_ws_def)
    then show ?thesis using n by simp
  qed
qed

lemma JSON_roundtrip: "integral j \<Longrightarrow> JSON_parse (JSON_stringify j) = Some j"
  using parse_value_stringify [of j "2 * length (JSON_stringify j) + 2" "[]"]
  by (simp add: JSON_parse_def delim_def skip_ws_def)

section \<open>The round trip of an envelope\<close>

lemma map_of_rev_property: "map_of (rev (property k v)) = (\<lambda>x. if x = k then v else None)"
  by (cases v) (auto simp: property_def)

lemma fromJSON_toJSON: "fromJSON (toJSON m) = Some m"
  by (simp add: toJSON_def map_of_rev_property map_add_def split: option.splits)

lemma integral_property:
  "list_all (\<lambda>kv. integral (snd kv)) (property k v) = (case v of None \<Rightarrow> True | Some x \<Rightarrow> integral x)"
  by (cases v) (auto simp: property_def)

lemma has_type_integral: "has_type P v \<Longrightarrow> (case v of None \<Rightarrow> True | Some x \<Rightarrow> integral x)"
  by (cases v) auto

lemma wf_message_integral: "wf_message m \<Longrightarrow> integral (toJSON m)"
  unfolding wf_message_def toJSON_def
  by (auto simp: integral_property intro: has_type_integral)

lemma decode_encode: "wf_message m \<Longrightarrow> decode (encode m) = Some m"
  by (simp add: decode_def encode_def JSON_roundtrip wf_message_integral fromJSON_toJSON)

lemma send_ok:
  "open_socket s = Some i \<Longrightarrow> is_number (m_type d) \<Longrightarrow>
   send d s = (Inr (), record_effect (SocketSend i (encode (d\<lparr>m_seq := Some (JNum (seq s + 1))\<rparr>)))
                         (s\<lparr>seq := seq s + 1\<rparr>))"
  by (simp add: send_def Let_def)


section \<open>The connected client\<close>

lemma run_connected: "run aes [CallConnect, SocketOpens 0] (init cfg) = Some (connected_state cfg)"
  by (simp add: connected_state_def connect_def init_def open_socket_def emit_def record_effect_def)

lemma connected_state_open: "open_socket (connected_state cfg) = Some 0"
  by (simp add: connected_state_def connect_def init_def open_socket_def emit_def record_effect_def
      on_open_def update_socket_def sendAuthMessage_def send_def Let_def)

lemma connected_state_seq: "seq (connected_state cfg) = 1"
  by (simp add: connected_state_def connect_def init_def open_socket_def emit_def record_effect_def
      on_open_def update_socket_def sendAuthMessage_def send_def Let_def empty_message_def)

lemma parse_132: \<open>JSON_parse ''{"type":132}'' = Some (JObj [(''type'', JNum 132)])\<close>
  by code_simp

lemmas client_defs = connect_def init_def open_socket_def emit_def record_effect_def
      on_open_def update_socket_def sendAuthMessage_def send_def Let_def empty_message_def
      on_message_def handleMessage_def startHeartbeat_def clearHeartbeat_def setTimeout_def
      clearTimeout_def fire_timer_def heartbeat_callback_def default_config_def

lemma scheduled_ping_frames:
  \<open>map_option (\<lambda>s. sent_frames (trace s))
     (run (\<lambda>k b. b)
        [CallConnect, SocketOpens 0, SocketMessage 0 ''{"type":132}'', TimePasses 60000, TimerFires 0]
        (init (default_config ''u'' ''s'')))
   = Some [encode (empty_message\<lparr>m_type := Some (JNum 1),
              m_token := Some (JStr ''7f54749ef19aaf9966ed7a616982c016bda5dfba''),
              m_appId := Some (JStr ''647e8f23d15d890d5cc02700''), m_seq := Some (JNum 1)\<rparr>),
           encode (empty_message\<lparr>m_type := Some (JNum 4), m_seq := Some (JNum 2)\<rparr>)]\<close>
  by (simp add: client_defs parse_132)

section \<open>The round trip of the send path\<close>




section \<open>The encryption is the scheme of the specification\<close>










section \<open>The replies of the protocol\<close>





text \<open>
  Claim C2, amended: with the socket open, the reply to an inbound envelope of type 4 is
  an envelope of type 132, and the ping that the heartbeat timer sends when it fires is
  an envelope of type 4.
\<close>

theorem heartbeat_types:
  assumes "open_socket s = Some i"
  shows "(m_type m = Some (JNum 4) \<longrightarrow>
            handleMessage aes m s =
              (Inr (), record_effect (SocketSend i (encode (empty_message
                 \<lparr>m_type := Some (JNum 132), m_seq := Some (JNum (seq s + 1))\<rparr>)))
                 (s\<lparr>seq := seq s + 1\<rparr>))) \<and>
         heartbeat_callback s =
           record_effect (SocketSend i (encode (empty_message
              \<lparr>m_type := Some (JNum 4), m_seq := Some (JNum (seq s + 1))\<rparr>)))
              (s\<lparr>seq := seq s + 1\<rparr>)"
  using send_ok [OF assms, of "empty_message\<lparr>m_type := Some (JNum 132)\<rparr>"]
    send_ok [OF assms, of "empty_message\<lparr>m_type := Some (JNum 4)\<rparr>"]
  by (simp add: handleMessage_def heartbeat_callback_def)



text \<open>
  Claim C2, as stated, on a client that connects, receives the heartbeat response 132 and
  lets the timer armed by it fire a minute later: the types of the frames sent are 1, for
  the authentication, and 4, for the ping.
\<close>

theorem scheduled_ping_counterexample:
  \<open>map_option (\<lambda>s. map (\<lambda>f. map_option m_type (decode f)) (sent_frames (trace s)))
     (run (\<lambda>k b. b)
        [CallConnect, SocketOpens 0, SocketMessage 0 ''{"type":132}'', TimePasses 60000, TimerFires 0]
        (init (default_config ''u'' ''s'')))
   = Some [Some (Some (JNum 1)), Some (Some (JNum 4))]\<close>
proof -
  have a: "wf_message (empty_message\<lparr>m_type := Some (JNum 1),
              m_token := Some (JStr ''7f54749ef19aaf9966ed7a616982c016bda5dfba''),
              m_appId := Some (JStr ''647e8f23d15d890d5cc02700''), m_seq := Some (JNum 1)\<rparr>)"
    by (simp add: wf_message_def empty_message_def)
  have b: "wf_message (empty_message\<lparr>m_type := Some (JNum 4), m_seq := Some (JNum 2)\<rparr>)"
    by (simp add: wf_message_def empty_message_def)
  obtain s where s: "run (\<lambda>k b. b)
        [CallConnect, SocketOpens 0, SocketMessage 0 ''{\"type\":132}'', TimePasses 60000, TimerFires 0]
        (init (default_config ''u'' ''s'')) = Some s"
    using scheduled_ping_frames by (cases "run (\<lambda>k b. b)
        [CallConnect, SocketOpens 0, SocketMessage 0 ''{\"type\":132}'', TimePasses 60000, TimerFires 0]
        (init (default_config ''u'' ''s''))") auto
  have f: "sent_frames (trace s) =
     [encode (empty_message\<lparr>m_type := Some (JNum 1),
              m_token := Some (JStr ''7f54749ef19aaf9966ed7a616982c016bda5dfba''),
              m_appId := Some (JStr ''647e8f23d15d890d5cc02700''), m_seq := Some (JNum 1)\<rparr>),
      encode (empty_message\<lparr>m_type := Some (JNum 4), m_seq := Some (JNum 2)\<rparr>)]"
    using scheduled_ping_frames unfolding s by simp
  show ?thesis
    unfolding s using f decode_encode [OF a] decode_encode [OF b]
    by (simp add: empty_message_def)
qed

theorem heartbeat_types_witness:
  "open_socket (connected_state (default_config ''u'' ''s'')) = Some 0 \<and>
   handleMessage (\<lambda>k b. b) (empty_message\<lparr>m_type := Some (JNum 4)\<rparr>)
       (connected_state (default_config ''u'' ''s'')) =
     (Inr (), record_effect (SocketSend 0 (encode (empty_message
                 \<lparr>m_type := Some (JNum 132), m_seq := Some (JNum 2)\<rparr>)))
                 ((connected_state (default_config ''u'' ''s''))\<lparr>seq := 2\<rparr>))"
  using heartbeat_types [OF connected_state_open [of "default_config ''u'' ''s''"],
      of "empty_message\<lparr>m_type := Some (JNum 4)\<rparr>" "\<lambda>k b. b"]
  by (simp add: connected_state_open connected_state_seq empty_message_def)



section \<open>The text projection of a chain\<close>

lemma chainToText_append: "chainToText (xs @ ys) = chainToText xs @ chainToText ys"
  by (simp add: chainToText_def)



section \<open>The fallback of the parser\<close>

lemma image_of_content_fail:
  "JSON_parse content = None \<Longrightarrow> image_of_content content = Inl SyntaxError"
  by (simp add: image_of_content_def JSON_parse_throw_def bind_e_def)

text \<open>
  Claim C7: when the content does not parse, \<^verbatim>\<open>parseMessage\<close> with the discriminator
  IMAGE returns the chain of the one Text segment holding the content; so it does on
  the content \<^verbatim>\<open>{not json\<close>; and for every discriminator and content it returns a
  chain and does not throw.
\<close>

theorem parseMessage_fallback:
  "(JSON_parse content = None \<longrightarrow> parseMessage ''IMAGE'' content = Inr [Text content]) \<and>
   parseMessage ''IMAGE'' ''{not json'' = Inr [Text ''{not json''] \<and>
   (\<exists>chain. parseMessage messageType content = Inr chain)"
proof (intro conjI impI)
  assume "JSON_parse content = None"
  then show "parseMessage ''IMAGE'' content = Inr [Text content]"
    by (simp add: parseMessage_def image_of_content_fail text_seg_def)
next
  have "JSON_parse ''{not json'' = None" by code_simp
  then show "parseMessage ''IMAGE'' ''{not json'' = Inr [Text ''{not json'']"
    by (simp add: parseMessage_def image_of_content_fail text_seg_def)
next
  show "\<exists>chain. parseMessage messageType content = Inr chain"
    by (auto simp: parseMessage_def split: sum.splits)
qed

theorem parseMessage_fallback_witness:
  "JSON_parse ''{not json'' = None \<and> parseMessage ''IMAGE'' ''{not json'' = Inr [Text ''{not json'']"
proof -
  have h: "JSON_parse ''{not json'' = None" by code_simp
  show ?thesis using h parseMessage_fallback [of "''{not json''"] by simp
qed

section \<open>A send that fails\<close>



end
